theory Spec2Isabelle
  imports Main
begin

section \<open>Contest results (models/ContestResult.js)\<close>

text \<open>
  JavaScript numbers are modelled as \<open>int\<close> (scores, points and millisecond counts are
  whole numbers throughout the code), strings as \<open>string\<close>, and a \<open>Date\<close> as the
  number of milliseconds it holds. A field that may be \<open>null\<close> or \<open>undefined\<close> is an
  \<open>option\<close>. \<open>new Date()\<close> reads the clock: the value read is a parameter \<open>now\<close>.
\<close>

record ProblemResult =
  problemId :: string
  score :: int
  maxScore :: int
  timeSpent :: int
  submissionCount :: int
  firstAcceptedAt :: "int option"
  status :: string

record ContestResult =
  userId :: string
  contestId :: string
  totalScore :: int
  totalTime :: int
  problemResults :: "ProblemResult list"
  penalties :: int
  isCompleted :: bool

text \<open>\<open>calculateTotals\<close>: both totals are recomputed by a \<open>reduce\<close> starting at 0.\<close>

definition calculateTotals :: "ContestResult \<Rightarrow> ContestResult" where
  "calculateTotals cr =
     cr\<lparr>totalScore := foldl (\<lambda>sum result. sum + score result) 0 (problemResults cr),
        totalTime := foldl (\<lambda>sum result. sum + timeSpent result) 0 (problemResults cr)\<rparr>"

text \<open>
  \<open>Array.prototype.find\<close> returns the first element that satisfies the predicate; the
  code then assigns to the fields of that very object, which is the first such element of
  the array. \<open>replaceFirst\<close> writes the mutated object back at that position.
\<close>

fun replaceFirst :: "('a \<Rightarrow> bool) \<Rightarrow> 'a \<Rightarrow> 'a list \<Rightarrow> 'a list" where
  "replaceFirst P y [] = []"
| "replaceFirst P y (x # xs) = (if P x then y # xs else x # replaceFirst P y xs)"

text \<open>The branch of \<open>updateProblemResult\<close> taken when the entry exists.\<close>

definition mutateExisting ::
  "ProblemResult \<Rightarrow> int \<Rightarrow> int \<Rightarrow> string \<Rightarrow> bool \<Rightarrow> int \<Rightarrow> ProblemResult" where
  "mutateExisting problemResult sc ts st isFirstAccept now =
     problemResult\<lparr>
       score := max (score problemResult) sc,
       timeSpent := timeSpent problemResult + ts,
       submissionCount := submissionCount problemResult + 1,
       status := st,
       firstAcceptedAt :=
         (if isFirstAccept \<and> firstAcceptedAt problemResult = None then Some now
          else firstAcceptedAt problemResult)\<rparr>"

text \<open>The object pushed when no entry exists.\<close>

definition pushedResult :: "string \<Rightarrow> int \<Rightarrow> int \<Rightarrow> string \<Rightarrow> bool \<Rightarrow> int \<Rightarrow> ProblemResult" where
  "pushedResult pid sc ts st isFirstAccept now =
     \<lparr>problemId = pid, score = sc, maxScore = 100, timeSpent = ts, submissionCount = 1,
      firstAcceptedAt = (if isFirstAccept then Some now else None), status = st\<rparr>"

definition updateProblemResult ::
  "ContestResult \<Rightarrow> string \<Rightarrow> int \<Rightarrow> int \<Rightarrow> string \<Rightarrow> bool \<Rightarrow> int \<Rightarrow> ContestResult" where
  "updateProblemResult cr pid sc ts st isFirstAccept now =
     calculateTotals
       (case find (\<lambda>p. problemId p = pid) (problemResults cr) of
          Some problemResult \<Rightarrow>
            cr\<lparr>problemResults :=
                 replaceFirst (\<lambda>p. problemId p = pid)
                   (mutateExisting problemResult sc ts st isFirstAccept now) (problemResults cr)\<rparr>
        | None \<Rightarrow>
            cr\<lparr>problemResults :=
                 problemResults cr @ [pushedResult pid sc ts st isFirstAccept now]\<rparr>)"

text \<open>
  One call of \<open>updateProblemResult\<close> with its arguments, and a sequence of such calls on
  the same contest result.
\<close>

record Application =
  a_problemId :: string
  a_score :: int
  a_timeSpent :: int
  a_status :: string
  a_isFirstAccept :: bool
  a_now :: int

definition applyOne :: "ContestResult \<Rightarrow> Application \<Rightarrow> ContestResult" where
  "applyOne cr a =
     updateProblemResult cr (a_problemId a) (a_score a) (a_timeSpent a) (a_status a)
       (a_isFirstAccept a) (a_now a)"

definition applyAll :: "ContestResult \<Rightarrow> Application list \<Rightarrow> ContestResult" where
  "applyAll cr as = foldl applyOne cr as"

definition lookupResult :: "ContestResult \<Rightarrow> string \<Rightarrow> ProblemResult option" where
  "lookupResult cr pid = find (\<lambda>p. problemId p = pid) (problemResults cr)"

text \<open>The applications of a sequence that address one problem.\<close>

definition forProblem :: "string \<Rightarrow> Application list \<Rightarrow> Application list" where
  "forProblem pid as = filter (\<lambda>a. a_problemId a = pid) as"

section \<open>Strings\<close>

text \<open>
  A \<open>string\<close> is a sequence of code units; each \<open>char\<close> stands for one code unit below
  \<open>0x100\<close>. \<open>String.prototype.trim\<close> removes white space and line terminators from both
  ends; in this range these are tab, line feed, vertical tab, form feed, carriage return,
  space and the no-break space.
\<close>

definition isWhiteSpace :: "char \<Rightarrow> bool" where
  "isWhiteSpace c =
     (c = CHR 0x09 \<or> c = CHR 0x0A \<or> c = CHR 0x0B \<or> c = CHR 0x0C \<or> c = CHR 0x0D \<or>
      c = CHR 0x20 \<or> c = CHR 0xA0)"

definition trim :: "string \<Rightarrow> string" where
  "trim s = rev (dropWhile isWhiteSpace (rev (dropWhile isWhiteSpace s)))"

abbreviation newline :: string where
  "newline \<equiv> [CHR 0x0A]"

text \<open>Decimal rendering of a number inside a template literal.\<close>

fun showNat :: "nat \<Rightarrow> string" where
  "showNat n =
     (if n < 10 then [char_of (48 + n)] else showNat (n div 10) @ [char_of (48 + n mod 10)])"

declare showNat.simps [simp del]

definition showInt :: "int \<Rightarrow> string" where
  "showInt i = (if i < 0 then ''-'' @ showNat (nat (- i)) else showNat (nat i))"

text \<open>\<open>Buffer.byteLength(s, 'utf8')\<close>: a code unit below \<open>0x80\<close> is one byte, the others two.\<close>

definition byteLength :: "string \<Rightarrow> nat" where
  "byteLength s = sum_list (map (\<lambda>c. if of_char c < (128 :: nat) then 1 else 2) s)"

section \<open>Problems (models/Problem.js)\<close>

record TestCase =
  tc_id :: string
  input :: string
  expectedOutput :: string
  isHidden :: bool
  points :: int

text \<open>
  The harness field is of mixed type: a string, or an object that maps a language to a
  string.
\<close>

datatype harness = HarnessString string | HarnessObject "string \<Rightarrow> string option"

record Problem =
  p_id :: string
  testCases :: "TestCase list"
  harshnessCode :: "harness option"
  harnessCode :: "harness option"
  p_points :: int

section \<open>The code runner (utils/codeRunner.js)\<close>

text \<open>
  What a spawned process does is outside the program. A child process settles its promise
  with the first of two events: \<open>close\<close>, carrying the exit code (\<open>null\<close> when a signal
  killed it, as the spawn timeout does) after stdout and stderr were collected, or
  \<open>error\<close>, carrying an error. The environment gives the event of the compiler for a
  compiler and a source text, and of the program for a language, a source text and an
  input; it also gives what \<open>fs.writeFileSync\<close> throws, if anything, and the time
  \<open>Date.now() - startTime\<close> measured around a run.
\<close>

datatype proc_event = Close "int option" string string | ProcError string

record runner_env =
  writeFile :: "string \<Rightarrow> string option"
  compileProc :: "string \<Rightarrow> string \<Rightarrow> proc_event"
  runProc :: "string \<Rightarrow> string \<Rightarrow> string \<Rightarrow> proc_event"
  elapsed :: "string \<Rightarrow> string \<Rightarrow> string \<Rightarrow> int"

record TestResult =
  passed :: bool
  executionTime :: int
  memoryUsed :: int
  output_str :: string
  error :: string

definition showCode :: "int option \<Rightarrow> string" where
  "showCode code = (case code of None \<Rightarrow> ''null'' | Some c \<Rightarrow> showInt c)"

text \<open>
  The \<open>close\<close> and \<open>error\<close> handlers of the run step, the same in all four \<open>run\<close>
  methods: reject unless the exit code is 0.
\<close>

definition settleRun :: "proc_event \<Rightarrow> string + (string \<times> string)" where
  "settleRun ev =
     (case ev of
        ProcError msg \<Rightarrow> Inl msg
      | Close code out err \<Rightarrow>
          if code \<noteq> Some 0 then Inl (''Process exited with code '' @ showCode code @ '': '' @ err)
          else Inr (out, err))"

definition runPython :: "runner_env \<Rightarrow> string \<Rightarrow> TestCase \<Rightarrow> string + (string \<times> string)" where
  "runPython env code testCase = settleRun (runProc env ''python'' code (input testCase))"

definition runJavaScript :: "runner_env \<Rightarrow> string \<Rightarrow> TestCase \<Rightarrow> string + (string \<times> string)" where
  "runJavaScript env code testCase = settleRun (runProc env ''javascript'' code (input testCase))"

definition runCpp :: "runner_env \<Rightarrow> string \<Rightarrow> TestCase \<Rightarrow> string + (string \<times> string)" where
  "runCpp env code testCase =
     (case compileProc env ''g++'' code of
        ProcError msg \<Rightarrow> Inl msg
      | Close c out err \<Rightarrow>
          if c \<noteq> Some 0 then Inl ''Compilation failed''
          else settleRun (runProc env ''cpp'' code (input testCase)))"

definition runJava :: "runner_env \<Rightarrow> string \<Rightarrow> TestCase \<Rightarrow> string + (string \<times> string)" where
  "runJava env code testCase =
     (case compileProc env ''javac'' code of
        ProcError msg \<Rightarrow> Inl msg
      | Close c out err \<Rightarrow>
          if c \<noteq> Some 0 then Inl ''Compilation failed''
          else settleRun (runProc env ''java'' code (input testCase)))"

definition estimateMemoryUsage :: "string \<Rightarrow> int" where
  "estimateMemoryUsage out = int ((byteLength out + 1023) div 1024)"

text \<open>
  \<open>executeTestCase\<close> writes the source, dispatches on the language and compares the
  trimmed output with the trimmed expected output. \<open>Inl\<close> is the message of the error it
  throws; the \<open>finally\<close> block only removes the temporary file.
\<close>

definition executeTestCase :: "runner_env \<Rightarrow> string \<Rightarrow> string \<Rightarrow> TestCase \<Rightarrow> string + TestResult" where
  "executeTestCase env code language testCase =
     (case writeFile env code of
        Some msg \<Rightarrow> Inl msg
      | None \<Rightarrow>
          (case (if language = ''python'' then runPython env code testCase
                 else if language = ''javascript'' then runJavaScript env code testCase
                 else if language = ''cpp'' then runCpp env code testCase
                 else if language = ''java'' then runJava env code testCase
                 else Inl (''Unsupported language: '' @ language)) of
             Inl msg \<Rightarrow> Inl msg
           | Inr (out, err) \<Rightarrow>
               Inr \<lparr>passed = (trim out = trim (expectedOutput testCase)),
                    executionTime = elapsed env language code (input testCase),
                    memoryUsed = estimateMemoryUsage out,
                    output_str = out,
                    error = err\<rparr>))"

text \<open>The body of the loop of \<open>runCode\<close>: the result, or the object built in \<open>catch\<close>.\<close>

definition tryExecute :: "runner_env \<Rightarrow> string \<Rightarrow> string \<Rightarrow> TestCase \<Rightarrow> TestResult" where
  "tryExecute env code language testCase =
     (case executeTestCase env code language testCase of
        Inr result \<Rightarrow> result
      | Inl msg \<Rightarrow>
          \<lparr>passed = False, executionTime = 0, memoryUsed = 0, output_str = '''', error = msg\<rparr>)"

fun runLoop ::
  "runner_env \<Rightarrow> string \<Rightarrow> string \<Rightarrow> TestCase list \<Rightarrow> TestResult list \<Rightarrow> TestResult list" where
  "runLoop env code language [] results = results"
| "runLoop env code language (testCase # rest) results =
     runLoop env code language rest (results @ [tryExecute env code language testCase])"

definition runCode :: "runner_env \<Rightarrow> string \<Rightarrow> string \<Rightarrow> TestCase list \<Rightarrow> TestResult list" where
  "runCode env code language tcs = runLoop env code language tcs []"

text \<open>
  Reading a property of a test result. Both object literals that build one (in
  \<open>executeTestCase\<close> and in the \<open>catch\<close> of \<open>runCode\<close>) have exactly the five
  properties of the record (\<open>output\<close> is the field \<open>output_str\<close>); any other property
  reads as \<open>undefined\<close>.
\<close>

datatype jsvalue = JUndefined | JBoolean bool | JNumber int | JString string

definition getProperty :: "TestResult \<Rightarrow> string \<Rightarrow> jsvalue" where
  "getProperty r name =
     (if name = ''passed'' then JBoolean (passed r)
      else if name = ''executionTime'' then JNumber (executionTime r)
      else if name = ''memoryUsed'' then JNumber (memoryUsed r)
      else if name = ''output'' then JString (output_str r)
      else if name = ''error'' then JString (error r)
      else JUndefined)"

section \<open>Contests (models/Contest.js) and the stores\<close>

record ContestProblem =
  cp_problemId :: string
  cp_order :: int
  cp_points :: int

record Contest =
  c_id :: string
  problems :: "ContestProblem list"
  startTime :: int
  endTime :: int

text \<open>
  The three collections the controllers read and write. A contest result is unique for a
  user and a contest (the unique index of the schema), so that collection is a map from
  the pair.
\<close>

record database =
  contests :: "string \<Rightarrow> Contest option"
  problemTable :: "Problem list"
  contestResults :: "string \<times> string \<Rightarrow> ContestResult option"

text \<open>
  Every call to the store is awaited and may throw. \<open>faults\<close> gives, for each call of
  \<open>submitSolution\<close> and \<open>updateContestResult\<close>, the message of the error it throws, if
  any: \<open>Contest.findById\<close> and \<open>Problem.findById\<close> in \<open>submitSolution\<close> (of the two
  calls of \<open>Problem.findById\<close> exactly one runs), then \<open>ContestResult.findOne\<close>,
  \<open>Contest.findById\<close>, \<open>Problem.find\<close>, \<open>ContestResult.create\<close> and \<open>save\<close> in
  \<open>updateContestResult\<close>. A call that throws leaves the store as it was.
\<close>

record faults =
  f_contestFindById :: "string option"
  f_problemFindById :: "string option"
  f_resultFindOne :: "string option"
  f_contestFindByIdOnCreate :: "string option"
  f_problemFind :: "string option"
  f_resultCreate :: "string option"
  f_resultSave :: "string option"

definition problemFindById :: "database \<Rightarrow> string \<Rightarrow> Problem option" where
  "problemFindById db pid = find (\<lambda>p. p_id p = pid) (problemTable db)"

section \<open>The harness composer (submissionController.js, combineWithHarness)\<close>

text \<open>
  \<open>problem?.harshnessCode ?? problem?.harnessCode ?? ''\<close>, then the string taken from
  it and trimmed.
\<close>

definition resolveHarness :: "Problem \<Rightarrow> string \<Rightarrow> string" where
  "resolveHarness problem language =
     (case (case harshnessCode problem of Some h \<Rightarrow> Some h | None \<Rightarrow> harnessCode problem) of
        Some (HarnessObject raw) \<Rightarrow> trim (case raw language of Some h \<Rightarrow> h | None \<Rightarrow> '''')
      | Some (HarnessString raw) \<Rightarrow> trim raw
      | None \<Rightarrow> trim '''')"

definition combineWithHarness :: "string \<Rightarrow> string \<Rightarrow> Problem \<Rightarrow> string" where
  "combineWithHarness userCode language problem =
     (let harness = resolveHarness problem language in
      if harness = '''' then userCode
      else if language = ''javascript'' then
        userCode @ newline @ ''// --- HARNESS START ---'' @ newline @ harness @ newline
          @ ''// --- HARNESS END ---''
      else if language = ''python'' then
        userCode @ newline @ ''# --- HARNESS START ---'' @ newline @ harness @ newline
          @ ''# --- HARNESS END ---''
      else if language = ''cpp'' then
        userCode @ newline @ ''// --- HARNESS START ---'' @ newline @ harness @ newline
          @ ''// --- HARNESS END ---''
      else if language = ''java'' then
        userCode @ newline @ ''// --- HARNESS START ---'' @ newline @ harness @ newline
          @ ''// --- HARNESS END ---''
      else userCode)"

section \<open>Scoring and the contest result update (submissionController.js)\<close>

text \<open>
  \<open>Number(tc.points) || 0\<close> is the points themselves. \<open>maxScore\<close> and \<open>score\<close> of
  \<open>submitSolution\<close> are two \<open>reduce\<close> calls; the second one passes the index, and an index
  beyond \<open>perTestPoints\<close> reads \<open>undefined\<close>, which \<open>|| 0\<close> turns into 0.
\<close>

definition perTestPoints :: "Problem \<Rightarrow> int list" where
  "perTestPoints problem = map points (testCases problem)"

definition submissionMaxScore :: "Problem \<Rightarrow> int" where
  "submissionMaxScore problem = foldl (\<lambda>s p. s + p) 0 (perTestPoints problem)"

fun scoreLoop :: "int list \<Rightarrow> TestResult list \<Rightarrow> nat \<Rightarrow> int \<Rightarrow> int" where
  "scoreLoop pts [] idx acc = acc"
| "scoreLoop pts (r # rs) idx acc =
     scoreLoop pts rs (idx + 1)
       (acc + (if passed r then (if idx < length pts then pts ! idx else 0) else 0))"

definition submissionScore :: "Problem \<Rightarrow> TestResult list \<Rightarrow> int" where
  "submissionScore problem testResults = scoreLoop (perTestPoints problem) testResults 0 0"

definition totalExecutionTime :: "TestResult list \<Rightarrow> int" where
  "totalExecutionTime testResults = foldl (\<lambda>s r. s + executionTime r) 0 testResults"

text \<open>The status expression of \<open>submitSolution\<close> (it occurs twice, the same).\<close>

definition submissionStatus :: "int \<Rightarrow> int \<Rightarrow> string" where
  "submissionStatus sc mx =
     (if sc = mx then ''accepted'' else if sc > 0 then ''partial'' else ''attempted'')"

text \<open>
  The entry created for a contest problem, in \<open>joinContest\<close> and in
  \<open>updateContestResult\<close> alike: \<open>full\<close> is the problem document found for it, if any.
  The fields not given take the defaults of the schema.
\<close>

definition initialMaxScore :: "ContestProblem \<Rightarrow> Problem option \<Rightarrow> int" where
  "initialMaxScore p full =
     (case full of
        None \<Rightarrow> cp_points p
      | Some f \<Rightarrow>
          if testCases f \<noteq> [] then foldl (\<lambda>s tc. s + points tc) 0 (testCases f)
          else p_points f)"

definition initialProblemResult :: "ContestProblem \<Rightarrow> Problem option \<Rightarrow> ProblemResult" where
  "initialProblemResult p full =
     \<lparr>problemId = cp_problemId p, score = 0, maxScore = initialMaxScore p full, timeSpent = 0,
      submissionCount = 0, firstAcceptedAt = None, status = ''not_attempted''\<rparr>"

text \<open>
  \<open>probMap.get\<close>: the map is built from the documents in order, a later document with
  the same id replacing an earlier one.
\<close>

definition probMapGet :: "Problem list \<Rightarrow> string \<Rightarrow> Problem option" where
  "probMapGet problemDocs k = find (\<lambda>p. p_id p = k) (rev problemDocs)"

definition initialContestResult :: "database \<Rightarrow> string \<Rightarrow> string \<Rightarrow> ContestResult" where
  "initialContestResult db uid cid =
     (let contestProblems = (case contests db cid of None \<Rightarrow> [] | Some contest \<Rightarrow> problems contest);
          problemIds = map cp_problemId contestProblems;
          problemDocs = filter (\<lambda>p. p_id p \<in> set problemIds) (problemTable db)
      in \<lparr>userId = uid, contestId = cid, totalScore = 0, totalTime = 0,
          problemResults =
            map (\<lambda>p. initialProblemResult p (probMapGet problemDocs (cp_problemId p)))
              contestProblems,
          penalties = 0, isCompleted = False\<rparr>)"

record SubmissionOutcome =
  s_score :: int
  s_totalExecutionTime :: int
  s_status :: string

text \<open>
  The \<open>try\<close> block of \<open>updateContestResult\<close>: the error it throws, if any, and the store
  it leaves. \<open>later\<close> is the clock read by \<open>updateProblemResult\<close>.
\<close>

definition findOrCreate ::
  "faults \<Rightarrow> database \<Rightarrow> string \<Rightarrow> string \<Rightarrow> (string + ContestResult) \<times> database" where
  "findOrCreate fl db uid cid =
     (case contestResults db (uid, cid) of
        Some contestResult \<Rightarrow> (Inr contestResult, db)
      | None \<Rightarrow>
          (case f_contestFindByIdOnCreate fl of
             Some e \<Rightarrow> (Inl e, db)
           | None \<Rightarrow>
               (case f_problemFind fl of
                  Some e \<Rightarrow> (Inl e, db)
                | None \<Rightarrow>
                    (case f_resultCreate fl of
                       Some e \<Rightarrow> (Inl e, db)
                     | None \<Rightarrow>
                         (let created = initialContestResult db uid cid
                          in (Inr created,
                              db\<lparr>contestResults := (contestResults db)((uid, cid) \<mapsto> created)\<rparr>))))))"

definition updateContestResultTry ::
  "faults \<Rightarrow> int \<Rightarrow> database \<Rightarrow> string \<Rightarrow> string \<Rightarrow> string \<Rightarrow> SubmissionOutcome
     \<Rightarrow> string option \<times> database" where
  "updateContestResultTry fl later db uid cid pid submission =
     (case f_resultFindOne fl of
        Some e \<Rightarrow> (Some e, db)
      | None \<Rightarrow>
          (case findOrCreate fl db uid cid of
             (Inl e, db') \<Rightarrow> (Some e, db')
           | (Inr contestResult, db') \<Rightarrow>
               (let isFirstAccept = (s_status submission = ''accepted'');
                    st = (if s_status submission = ''accepted'' then ''accepted''
                          else if s_score submission > 0 then ''partial'' else ''attempted'');
                    updated = updateProblemResult contestResult pid (s_score submission)
                                (s_totalExecutionTime submission) st isFirstAccept later
                in (case f_resultSave fl of
                      Some e \<Rightarrow> (Some e, db')
                    | None \<Rightarrow>
                        (None, db'\<lparr>contestResults := (contestResults db')((uid, cid) \<mapsto> updated)\<rparr>)))))"

text \<open>
  \<open>updateContestResult\<close> itself: the \<open>catch\<close> writes the error to the console and the
  function returns nothing, so all that is left of the call is the store.
\<close>

definition updateContestResult ::
  "faults \<Rightarrow> int \<Rightarrow> database \<Rightarrow> string \<Rightarrow> string \<Rightarrow> string \<Rightarrow> SubmissionOutcome \<Rightarrow> database" where
  "updateContestResult fl later db uid cid pid submission =
     snd (updateContestResultTry fl later db uid cid pid submission)"

section \<open>submitSolution\<close>

record SubmissionData =
  d_status :: string
  d_score :: int
  d_maxScore :: int
  d_testResults :: "TestResult list"
  d_totalExecutionTime :: int

record Response =
  httpStatus :: nat
  success :: bool
  message :: string
  data :: "SubmissionData option"
  errorMessage :: "string option"

definition reject :: "nat \<Rightarrow> string \<Rightarrow> Response" where
  "reject st msg =
     \<lparr>httpStatus = st, success = False, message = msg, data = None, errorMessage = None\<rparr>"

definition serverError :: "string \<Rightarrow> Response" where
  "serverError e =
     \<lparr>httpStatus = 500, success = False, message = ''Failed to submit solution'', data = None,
      errorMessage = Some e\<rparr>"

text \<open>
  The inner \<open>try\<close> block of \<open>submitSolution\<close>, entered once the contest and the problem
  are found. Nothing in it throws: \<open>combineWithHarness\<close> is a pure function, \<open>runCode\<close>
  catches the errors of each test case and \<open>updateContestResult\<close> catches its own, so the
  \<open>catch (executionError)\<close> branch has no path to it. \<open>submissionOutcome\<close> is the
  object handed to \<open>updateContestResult\<close>.
\<close>

definition submissionOutcome :: "Problem \<Rightarrow> TestResult list \<Rightarrow> SubmissionOutcome" where
  "submissionOutcome problem testResults =
     \<lparr>s_score = submissionScore problem testResults,
      s_totalExecutionTime = totalExecutionTime testResults,
      s_status =
        submissionStatus (submissionScore problem testResults) (submissionMaxScore problem)\<rparr>"

definition gradeAndRespond ::
  "runner_env \<Rightarrow> faults \<Rightarrow> int \<Rightarrow> database \<Rightarrow> string \<Rightarrow> string \<Rightarrow> string \<Rightarrow> string \<Rightarrow> string
     \<Rightarrow> Problem \<Rightarrow> Response \<times> database" where
  "gradeAndRespond env fl later db uid cid pid code language problem =
     (let combinedCode = combineWithHarness code language problem;
          testResults = runCode env combinedCode language (testCases problem);
          mx = submissionMaxScore problem;
          sc = submissionScore problem testResults;
          db' = updateContestResult fl later db uid cid pid (submissionOutcome problem testResults)
      in (\<lparr>httpStatus = 200, success = True, message = ''Solution submitted successfully'',
           data = Some \<lparr>d_status = submissionStatus sc mx, d_score = sc, d_maxScore = mx,
                        d_testResults = testResults,
                        d_totalExecutionTime = totalExecutionTime testResults\<rparr>,
           errorMessage = None\<rparr>, db'))"

definition submitSolution ::
  "runner_env \<Rightarrow> faults \<Rightarrow> int \<Rightarrow> int \<Rightarrow> database \<Rightarrow> string \<Rightarrow> string \<Rightarrow> string \<Rightarrow> string \<Rightarrow> string
     \<Rightarrow> Response \<times> database" where
  "submitSolution env fl now later db uid cid pid code language =
     (case f_contestFindById fl of
        Some e \<Rightarrow> (serverError e, db)
      | None \<Rightarrow>
          (case contests db cid of
             None \<Rightarrow> (reject 404 ''Contest not found'', db)
           | Some contest \<Rightarrow>
               if now < startTime contest \<or> now > endTime contest then
                 (reject 400 ''Contest is not currently running'', db)
               else
                 (case find (\<lambda>p. cp_problemId p = pid) (problems contest) of
                    None \<Rightarrow>
                      (case f_problemFindById fl of
                         Some e \<Rightarrow> (serverError e, db)
                       | None \<Rightarrow> (reject 400 ''Problem not found in this contest'', db))
                  | Some problemInContest \<Rightarrow>
                      (case f_problemFindById fl of
                         Some e \<Rightarrow> (serverError e, db)
                       | None \<Rightarrow>
                           (case problemFindById db pid of
                              None \<Rightarrow> (reject 404 ''Problem not found'', db)
                            | Some problem \<Rightarrow>
                                gradeAndRespond env fl later db uid cid pid code language
                                  problem)))))"

section \<open>Concrete inputs\<close>

text \<open>
  A problem with two test cases worth 40 and 30 points, whose flat \<open>points\<close> field is 50,
  listed in a contest for 80 points; the same problem without test cases; and a problem
  with a harness.
\<close>

definition exTests :: "TestCase list" where
  "exTests =
     [\<lparr>tc_id = ''t1'', input = ''3 4'', expectedOutput = ''7'' @ newline, isHidden = False,
       points = 40\<rparr>,
      \<lparr>tc_id = ''t2'', input = ''5 6'', expectedOutput = ''11'', isHidden = True,
       points = 30\<rparr>]"

definition exProblem :: Problem where
  "exProblem =
     \<lparr>p_id = ''p1'', testCases = exTests, harshnessCode = Some (HarnessString ''''),
      harnessCode = None, p_points = 50\<rparr>"

definition emptyProblem :: Problem where
  "emptyProblem =
     \<lparr>p_id = ''p1'', testCases = [], harshnessCode = Some (HarnessString ''''),
      harnessCode = None, p_points = 50\<rparr>"

definition harnessProblem :: Problem where
  "harnessProblem =
     \<lparr>p_id = ''p1'', testCases = exTests, harshnessCode = Some (HarnessString ''  main()  ''),
      harnessCode = None, p_points = 50\<rparr>"

definition exContestProblem :: ContestProblem where
  "exContestProblem = \<lparr>cp_problemId = ''p1'', cp_order = 1, cp_points = 80\<rparr>"

definition exContest :: Contest where
  "exContest = \<lparr>c_id = ''c1'', problems = [exContestProblem], startTime = 0, endTime = 1000\<rparr>"

text \<open>
  The contest result of user \<open>u1\<close> after an accepted submission, and one created before
  the problem was added to the contest.
\<close>

definition acceptedEntry :: ProblemResult where
  "acceptedEntry =
     \<lparr>problemId = ''p1'', score = 70, maxScore = 70, timeSpent = 30, submissionCount = 1,
      firstAcceptedAt = Some 5, status = ''accepted''\<rparr>"

definition exAccepted :: ContestResult where
  "exAccepted =
     \<lparr>userId = ''u1'', contestId = ''c1'', totalScore = 70, totalTime = 30,
      problemResults = [acceptedEntry], penalties = 0, isCompleted = False\<rparr>"

definition exJoinedEarly :: ContestResult where
  "exJoinedEarly =
     \<lparr>userId = ''u1'', contestId = ''c1'', totalScore = 0, totalTime = 0,
      problemResults = [], penalties = 0, isCompleted = False\<rparr>"

definition exDb :: "ContestResult option \<Rightarrow> Problem \<Rightarrow> database" where
  "exDb stored problem =
     \<lparr>contests = (\<lambda>c. if c = ''c1'' then Some exContest else None),
      problemTable = [problem],
      contestResults = (\<lambda>k. if k = (''u1'', ''c1'') then stored else None)\<rparr>"

definition noFaults :: faults where
  "noFaults =
     \<lparr>f_contestFindById = None, f_problemFindById = None, f_resultFindOne = None,
      f_contestFindByIdOnCreate = None, f_problemFind = None, f_resultCreate = None,
      f_resultSave = None\<rparr>"

definition saveFails :: faults where
  "saveFails = noFaults\<lparr>f_resultSave := Some ''write failed''\<rparr>"

text \<open>
  Four environments: a program that prints nothing and exits with code 0; one that prints
  \<open>7\<close> between blanks and exits with code 0; one that prints \<open>7\<close> and exits with code 1;
  and a compiler that exits with code 1.
\<close>

definition silentEnv :: runner_env where
  "silentEnv =
     \<lparr>writeFile = (\<lambda>_. None), compileProc = (\<lambda>_ _. Close (Some 0) '''' ''''),
      runProc = (\<lambda>_ _ _. Close (Some 0) '''' ''''), elapsed = (\<lambda>_ _ _. 12)\<rparr>"

definition paddedEnv :: runner_env where
  "paddedEnv =
     \<lparr>writeFile = (\<lambda>_. None), compileProc = (\<lambda>_ _. Close (Some 0) '''' ''''),
      runProc = (\<lambda>_ _ _. Close (Some 0) ''  7  '' ''''), elapsed = (\<lambda>_ _ _. 12)\<rparr>"

definition exitOneEnv :: runner_env where
  "exitOneEnv =
     \<lparr>writeFile = (\<lambda>_. None), compileProc = (\<lambda>_ _. Close (Some 0) '''' ''''),
      runProc = (\<lambda>_ _ _. Close (Some 1) ''7'' ''''), elapsed = (\<lambda>_ _ _. 12)\<rparr>"

definition brokenCompileEnv :: runner_env where
  "brokenCompileEnv =
     \<lparr>writeFile = (\<lambda>_. None), compileProc = (\<lambda>_ _. Close (Some 1) '''' ''expected ;''),
      runProc = (\<lambda>_ _ _. Close (Some 0) ''7'' ''''), elapsed = (\<lambda>_ _ _. 12)\<rparr>"

text \<open>Two submissions for \<open>p1\<close>, scoring 40 and then 70.\<close>

definition exApplications :: "Application list" where
  "exApplications =
     [\<lparr>a_problemId = ''p1'', a_score = 40, a_timeSpent = 25, a_status = ''partial'',
       a_isFirstAccept = False, a_now = 8\<rparr>,
      \<lparr>a_problemId = ''p1'', a_score = 70, a_timeSpent = 35, a_status = ''accepted'',
       a_isFirstAccept = True, a_now = 9\<rparr>]"

section \<open>Notions used in the statements\<close>

text \<open>The test result every test case gets when the compiler fails.\<close>

definition compilationFailed :: TestResult where
  "compilationFailed =
     \<lparr>passed = False, executionTime = 0, memoryUsed = 0, output_str = '''',
      error = ''Compilation failed''\<rparr>"

text \<open>The compiler that \<open>runCpp\<close> and \<open>runJava\<close> spawn.\<close>

definition compilerOf :: "string \<Rightarrow> string" where
  "compilerOf language = (if language = ''cpp'' then ''g++'' else ''javac'')"

text \<open>
  The comment sign in the markers of \<open>combineWithHarness\<close>, and the languages it has a
  branch for (the same four that \<open>executeTestCase\<close> dispatches on).
\<close>

definition commentMarker :: "string \<Rightarrow> string" where
  "commentMarker language = (if language = ''python'' then ''#'' else ''//'')"

definition supported :: "string \<Rightarrow> bool" where
  "supported language =
     (language = ''javascript'' \<or> language = ''python'' \<or> language = ''cpp'' \<or> language = ''java'')"

section \<open>Evaluation of the concrete inputs\<close>

lemmas ex_defs =
  exTests_def exProblem_def emptyProblem_def harnessProblem_def exContestProblem_def
  exContest_def acceptedEntry_def exAccepted_def exJoinedEarly_def exDb_def noFaults_def
  saveFails_def silentEnv_def paddedEnv_def exitOneEnv_def brokenCompileEnv_def
  exApplications_def compilationFailed_def

lemmas model_defs =
  submitSolution_def gradeAndRespond_def submissionOutcome_def updateContestResult_def updateContestResultTry_def
  findOrCreate_def initialContestResult_def initialProblemResult_def initialMaxScore_def
  probMapGet_def problemFindById_def combineWithHarness_def resolveHarness_def runCode_def
  tryExecute_def executeTestCase_def runPython_def runJavaScript_def runCpp_def runJava_def
  settleRun_def submissionMaxScore_def submissionScore_def perTestPoints_def
  totalExecutionTime_def submissionStatus_def updateProblemResult_def calculateTotals_def
  mutateExisting_def pushedResult_def lookupResult_def trim_def isWhiteSpace_def
  estimateMemoryUsage_def byteLength_def

section \<open>The contest result aggregator\<close>

lemma find_replaceFirst_same:
  "find P xs = Some x \<Longrightarrow> P y \<Longrightarrow> find P (replaceFirst P y xs) = Some y"
  by (induction xs) auto

lemma find_replaceFirst_other:
  "pid' \<noteq> pid \<Longrightarrow> problemId y \<noteq> pid \<Longrightarrow>
   find (\<lambda>p. problemId p = pid) (replaceFirst (\<lambda>p. problemId p = pid') y xs)
     = find (\<lambda>p. problemId p = pid) xs"
  by (induction xs) auto

lemma find_append_other: "\<not> Q y \<Longrightarrow> find Q (xs @ [y]) = find Q xs"
  by (induction xs) auto

lemma problemResults_calculateTotals [simp]:
  "problemResults (calculateTotals cr) = problemResults cr"
  by (simp add: calculateTotals_def)

text \<open>
  An update for a problem that has an entry rewrites that entry by \<open>mutateExisting\<close>; an
  update for another problem leaves it alone, whether that other problem has an entry or
  gets one pushed.
\<close>

lemma lookup_update_same:
  assumes "lookupResult cr pid = Some pr"
  shows "lookupResult (updateProblemResult cr pid sc ts st fa now) pid
           = Some (mutateExisting pr sc ts st fa now)"
proof -
  have "problemId pr = pid"
    using assms by (auto simp: lookupResult_def find_Some_iff)
  then have "problemId (mutateExisting pr sc ts st fa now) = pid"
    by (simp add: mutateExisting_def)
  with assms show ?thesis
    by (simp add: lookupResult_def updateProblemResult_def find_replaceFirst_same)
qed

lemma lookup_update_other:
  assumes "pid' \<noteq> pid"
  shows "lookupResult (updateProblemResult cr pid' sc ts st fa now) pid = lookupResult cr pid"
proof (cases "find (\<lambda>p. problemId p = pid') (problemResults cr)")
  case None
  with assms show ?thesis
    by (simp add: lookupResult_def updateProblemResult_def find_append_other pushedResult_def)
next
  case (Some q)
  then have "problemId q = pid'"
    by (auto simp: find_Some_iff)
  then have "problemId (mutateExisting q sc ts st fa now) \<noteq> pid"
    using assms by (simp add: mutateExisting_def)
  with Some assms show ?thesis
    by (simp add: lookupResult_def updateProblemResult_def find_replaceFirst_other)
qed

lemma lookup_update_absent:
  assumes "lookupResult cr pid = None"
  shows "lookupResult (updateProblemResult cr pid sc ts st fa now) pid
           = Some (pushedResult pid sc ts st fa now)"
proof -
  have "find (\<lambda>p. problemId p = pid) (xs @ [pushedResult pid sc ts st fa now])
          = Some (pushedResult pid sc ts st fa now)"
    if "find (\<lambda>p. problemId p = pid) xs = None" for xs
    using that by (induction xs) (auto simp: pushedResult_def split: if_splits)
  with assms show ?thesis
    by (simp add: lookupResult_def updateProblemResult_def)
qed

lemma applyAll_Cons: "applyAll cr (a # as) = applyAll (applyOne cr a) as"
  by (simp add: applyAll_def)

text \<open>
  C1. A problem result is accepted with 70 of 70 points. A further submission for the
  problem prints nothing, so it scores 0: after \<open>submitSolution\<close> the stored entry still
  has score 70 and its \<open>firstAcceptedAt\<close>, and its status is \<open>attempted\<close>. The status
  assignment of \<open>updateProblemResult\<close> is unconditional.
\<close>

theorem accepted_status_regresses:
  "map_option problemResults
     (contestResults
        (snd (submitSolution silentEnv noFaults 10 20 (exDb (Some exAccepted) exProblem)
                ''u1'' ''c1'' ''p1'' ''print(1)'' ''python''))
        (''u1'', ''c1''))
   = Some [\<lparr>problemId = ''p1'', score = 70, maxScore = 70, timeSpent = 54, submissionCount = 2,
            firstAcceptedAt = Some 5, status = ''attempted''\<rparr>]"
  by (simp add: ex_defs model_defs Let_def)

text \<open>
  C5. Take a contest result with an entry for a problem, and any sequence of calls of
  \<open>updateProblemResult\<close> on it, for this problem or for others. Afterwards the entry is
  still there; its score is the maximum of the old score and the scores submitted for the
  problem, so it did not decrease; its submission count grew by the number of calls for
  the problem, one each; its time is the old time plus the sum of the times submitted;
  and \<open>firstAcceptedAt\<close>, if it was set, is what it was.
\<close>

theorem aggregator_monotone:
  "lookupResult cr pid = Some pr \<Longrightarrow>
   \<exists>pr'. lookupResult (applyAll cr as) pid = Some pr' \<and>
         score pr' = foldl max (score pr) (map a_score (forProblem pid as)) \<and>
         score pr \<le> score pr' \<and>
         submissionCount pr' = submissionCount pr + int (length (forProblem pid as)) \<and>
         timeSpent pr' = timeSpent pr + sum_list (map a_timeSpent (forProblem pid as)) \<and>
         (firstAcceptedAt pr = None \<or> firstAcceptedAt pr' = firstAcceptedAt pr)"
proof (induction as arbitrary: cr pr)
  case Nil
  then show ?case
    by (simp add: applyAll_def forProblem_def)
next
  case (Cons a as)
  show ?case
  proof (cases "a_problemId a = pid")
    case True
    let ?q = "mutateExisting pr (a_score a) (a_timeSpent a) (a_status a) (a_isFirstAccept a) (a_now a)"
    have L: "lookupResult (applyOne cr a) pid = Some ?q"
      using Cons.prems True by (simp add: applyOne_def lookup_update_same)
    from Cons.IH[OF L] obtain pr' where
      A: "lookupResult (applyAll (applyOne cr a) as) pid = Some pr'"
      and B: "score pr' = foldl max (score ?q) (map a_score (forProblem pid as))"
      and C: "score ?q \<le> score pr'"
      and D: "submissionCount pr' = submissionCount ?q + int (length (forProblem pid as))"
      and E: "timeSpent pr' = timeSpent ?q + sum_list (map a_timeSpent (forProblem pid as))"
      and F: "firstAcceptedAt ?q = None \<or> firstAcceptedAt pr' = firstAcceptedAt ?q"
      by blast
    show ?thesis
      using A B C D E F True
      by (auto simp: applyAll_Cons forProblem_def mutateExisting_def split: if_splits)
  next
    case False
    have L: "lookupResult (applyOne cr a) pid = Some pr"
      using Cons.prems False by (simp add: applyOne_def lookup_update_other)
    from Cons.IH[OF L] show ?thesis
      using False by (simp add: applyAll_Cons forProblem_def)
  qed
qed

text \<open>
  The accepted entry (score 70, one submission, 30 ms, accepted at 5) after submissions
  scoring 40 and 70 that took 25 and 35 ms, the second one flagged as a first accept.
\<close>

theorem aggregator_monotone_witness:
  "lookupResult exAccepted ''p1'' = Some acceptedEntry \<and>
   (\<exists>pr'. lookupResult (applyAll exAccepted exApplications) ''p1'' = Some pr' \<and>
          score pr' = 70 \<and> submissionCount pr' = 3 \<and> timeSpent pr' = 90 \<and>
          firstAcceptedAt pr' = Some 5)"
proof -
  have h: "lookupResult exAccepted ''p1'' = Some acceptedEntry"
    by (simp add: lookupResult_def exAccepted_def acceptedEntry_def)
  from aggregator_monotone [OF h, of exApplications] obtain pr' where
    "lookupResult (applyAll exAccepted exApplications) ''p1'' = Some pr'"
    "score pr' = foldl max (score acceptedEntry) (map a_score (forProblem ''p1'' exApplications))"
    "submissionCount pr' =
       submissionCount acceptedEntry + int (length (forProblem ''p1'' exApplications))"
    "timeSpent pr' =
       timeSpent acceptedEntry + sum_list (map a_timeSpent (forProblem ''p1'' exApplications))"
    "firstAcceptedAt acceptedEntry = None \<or> firstAcceptedAt pr' = firstAcceptedAt acceptedEntry"
    by blast
  then have "lookupResult (applyAll exAccepted exApplications) ''p1'' = Some pr' \<and>
          score pr' = 70 \<and> submissionCount pr' = 3 \<and> timeSpent pr' = 90 \<and>
          firstAcceptedAt pr' = Some 5"
    by (simp add: forProblem_def exApplications_def acceptedEntry_def)
  with h show ?thesis
    by blast
qed

text \<open>
  C6. The contest result of the user exists but has no entry for the problem, whose two
  test cases are worth 40 and 30 points. \<open>submitSolution\<close> reports a maximum of 70, and
  the entry that \<open>updateProblemResult\<close> pushes into the stored result has \<open>maxScore\<close> 100.
\<close>

theorem synthesized_maxScore_is_constant:
  "map_option d_maxScore
     (data (fst (submitSolution silentEnv noFaults 10 20 (exDb (Some exJoinedEarly) exProblem)
                   ''u1'' ''c1'' ''p1'' ''print(1)'' ''python''))) = Some 70 \<and>
   map_option (map maxScore \<circ> problemResults)
     (contestResults
        (snd (submitSolution silentEnv noFaults 10 20 (exDb (Some exJoinedEarly) exProblem)
                ''u1'' ''c1'' ''p1'' ''print(1)'' ''python''))
        (''u1'', ''c1'')) = Some [100]"
  by (simp add: ex_defs model_defs Let_def)

text \<open>Whatever the arguments, the entry pushed for a problem without one has \<open>maxScore\<close> 100.\<close>

lemma pushed_maxScore:
  "lookupResult cr pid = None \<Longrightarrow>
   map_option maxScore (lookupResult (updateProblemResult cr pid sc ts st fa now) pid) = Some 100"
  by (simp add: lookup_update_absent pushedResult_def)

section \<open>Scoring\<close>

lemma foldl_plus_sum_list: "foldl (\<lambda>s p. s + p) a xs = (a :: int) + sum_list xs"
  by (induction xs arbitrary: a) auto

lemma foldl_plus_map: "foldl (\<lambda>s x. s + f x) a xs = (a :: int) + sum_list (map f xs)"
  by (induction xs arbitrary: a) auto

text \<open>\<open>maxScore\<close> of \<open>submitSolution\<close> is the sum of the points of the test cases.\<close>

lemma submissionMaxScore_sum:
  "submissionMaxScore problem = sum_list (map points (testCases problem))"
  by (simp add: submissionMaxScore_def perTestPoints_def foldl_plus_sum_list)

text \<open>
  \<open>score\<close> of \<open>submitSolution\<close> is the sum of the points at the indices whose test result
  passed.
\<close>

lemma scoreLoop_sum:
  "scoreLoop pts rs idx acc =
     acc + (\<Sum>i < length rs. if passed (rs ! i) \<and> idx + i < length pts then pts ! (idx + i) else 0)"
proof (induction rs arbitrary: idx acc)
  case Nil
  then show ?case by simp
next
  case (Cons r rs)
  show ?case
    by (simp add: Cons.IH sum.lessThan_Suc_shift del: sum.lessThan_Suc cong: if_cong)
qed

lemma submissionScore_sum:
  assumes "length testResults = length (testCases problem)"
  shows "submissionScore problem testResults =
           (\<Sum>i < length testResults.
              if passed (testResults ! i) then points (testCases problem ! i) else 0)"
proof -
  have "(if passed (testResults ! i) \<and> i < length (perTestPoints problem)
         then perTestPoints problem ! i else 0)
        = (if passed (testResults ! i) then points (testCases problem ! i) else 0)"
    if "i < length testResults" for i
    using that assms by (simp add: perTestPoints_def)
  then have "(\<Sum>i < length testResults.
            if passed (testResults ! i) \<and> i < length (perTestPoints problem)
            then perTestPoints problem ! i else 0)
        = (\<Sum>i < length testResults.
            if passed (testResults ! i) then points (testCases problem ! i) else 0)"
    by (intro sum.cong) auto
  then show ?thesis
    by (simp add: submissionScore_def scoreLoop_sum cong: if_cong)
qed

lemma scoreLoop_none_passed:
  "list_all (\<lambda>r. \<not> passed r) rs \<Longrightarrow> scoreLoop pts rs idx acc = acc"
  by (induction rs arbitrary: idx acc) auto

text \<open>With points that are not negative the score lies between 0 and the maximum.\<close>

lemma scoreLoop_bounds:
  assumes "list_all (\<lambda>p. 0 \<le> p) pts"
  shows "acc \<le> scoreLoop pts rs idx acc \<and> scoreLoop pts rs idx acc \<le> acc + sum_list (drop idx pts)"
proof (induction rs arbitrary: idx acc)
  case Nil
  have "0 \<le> sum_list (drop idx pts)"
    using assms by (auto simp: list_all_iff intro!: sum_list_nonneg dest: in_set_dropD)
  then show ?case by simp
next
  case (Cons r rs)
  have nonneg: "0 \<le> sum_list (drop n pts)" for n
    using assms by (auto simp: list_all_iff intro!: sum_list_nonneg dest: in_set_dropD)
  show ?case
  proof (cases "idx < length pts")
    case True
    then have D: "drop idx pts = pts ! idx # drop (Suc idx) pts"
      by (simp add: Cons_nth_drop_Suc)
    have P: "0 \<le> pts ! idx"
      using assms True by (simp add: list_all_length)
    show ?thesis
      using Cons.IH[where idx = "Suc idx" and acc = "acc + pts ! idx"]
        Cons.IH[where idx = "Suc idx" and acc = acc] P D nonneg[of "Suc idx"]
      by auto
  next
    case False
    then show ?thesis
      using Cons.IH[where idx = "Suc idx" and acc = acc] by auto
  qed
qed

lemma submissionScore_bounds:
  "list_all (\<lambda>tc. 0 \<le> points tc) (testCases problem) \<Longrightarrow>
   0 \<le> submissionScore problem testResults \<and>
   submissionScore problem testResults \<le> submissionMaxScore problem"
  using scoreLoop_bounds[where pts = "perTestPoints problem" and idx = 0 and rs = testResults
      and acc = 0]
  by (simp add: submissionScore_def submissionMaxScore_sum perTestPoints_def list_all_iff)

text \<open>
  Where the maximum is positive and the score lies between 0 and the maximum, the status
  is the one of the three that the score calls for.
\<close>

lemma submissionStatus_positive_max:
  "0 < mx \<Longrightarrow> 0 \<le> sc \<Longrightarrow> sc \<le> mx \<Longrightarrow>
   (submissionStatus sc mx = ''accepted'' \<longleftrightarrow> sc = mx) \<and>
   (submissionStatus sc mx = ''partial'' \<longleftrightarrow> 0 < sc \<and> sc < mx) \<and>
   (submissionStatus sc mx = ''attempted'' \<longleftrightarrow> sc = 0)"
  by (auto simp: submissionStatus_def)

text \<open>
  C2. The problem has no test cases and its flat \<open>points\<close> field is 50. There is nothing
  to run, \<open>submitSolution\<close> computes score 0 and maximum 0, and since they are equal it
  answers \<open>accepted\<close>; the contest result it creates and updates records the problem as
  accepted, with \<open>firstAcceptedAt\<close> set.
\<close>

theorem zero_maximum_is_accepted:
  "data (fst (submitSolution silentEnv noFaults 10 20 (exDb None emptyProblem)
                ''u1'' ''c1'' ''p1'' ''print(1)'' ''python''))
     = Some \<lparr>d_status = ''accepted'', d_score = 0, d_maxScore = 0, d_testResults = [],
             d_totalExecutionTime = 0\<rparr> \<and>
   map_option problemResults
     (contestResults
        (snd (submitSolution silentEnv noFaults 10 20 (exDb None emptyProblem)
                ''u1'' ''c1'' ''p1'' ''print(1)'' ''python''))
        (''u1'', ''c1''))
     = Some [\<lparr>problemId = ''p1'', score = 0, maxScore = 50, timeSpent = 0, submissionCount = 1,
              firstAcceptedAt = Some 20, status = ''accepted''\<rparr>]"
  by (simp add: ex_defs model_defs Let_def)

text \<open>
  C3. For the problem without test cases, whose flat \<open>points\<close> field is 50, the maximum
  that \<open>submitSolution\<close> computes and returns is 0, the empty sum. The entry that
  \<open>joinContest\<close> and \<open>updateContestResult\<close> create for the same problem falls back to the
  flat points and has \<open>maxScore\<close> 50.
\<close>

theorem flat_points_fallback_missing:
  "submissionMaxScore emptyProblem = 0 \<and>
   map_option d_maxScore
     (data (fst (submitSolution silentEnv noFaults 10 20 (exDb None emptyProblem)
                   ''u1'' ''c1'' ''p1'' ''print(1)'' ''python''))) = Some 0 \<and>
   p_points emptyProblem = 50 \<and>
   initialMaxScore exContestProblem (Some emptyProblem) = 50"
  by (simp add: ex_defs model_defs Let_def)

section \<open>The test loop\<close>

lemma runLoop_map:
  "runLoop env code language tcs results = results @ map (tryExecute env code language) tcs"
  by (induction tcs arbitrary: results) auto

lemma runCode_map: "runCode env code language tcs = map (tryExecute env code language) tcs"
  by (simp add: runCode_def runLoop_map)

text \<open>A compiler that exits with a code other than 0 fails every test case the same way.\<close>

lemma tryExecute_compile_failure:
  assumes "language = ''cpp'' \<or> language = ''java''"
    and "writeFile env code = None"
    and "compileProc env (compilerOf language) code = Close c out err"
    and "c \<noteq> Some 0"
  shows "tryExecute env code language testCase = compilationFailed"
  using assms
  by (auto simp: tryExecute_def executeTestCase_def runCpp_def runJava_def compilerOf_def
      compilationFailed_def)

text \<open>
  C4, as the claim states it. A C++ submission whose compiler exits with code 1: both test
  results are the compilation failure, and the status \<open>submitSolution\<close> answers is
  \<open>attempted\<close>, the status of score 0, not \<open>compilation_error\<close>.
\<close>

theorem compilation_error_status_counterexample:
  "map_option d_testResults
     (data (fst (submitSolution brokenCompileEnv noFaults 10 20 (exDb None exProblem)
                   ''u1'' ''c1'' ''p1'' ''int main() {'' ''cpp'')))
     = Some [compilationFailed, compilationFailed] \<and>
   map_option d_status
     (data (fst (submitSolution brokenCompileEnv noFaults 10 20 (exDb None exProblem)
                   ''u1'' ''c1'' ''p1'' ''int main() {'' ''cpp''))) = Some ''attempted'' \<and>
   map_option d_status
     (data (fst (submitSolution brokenCompileEnv noFaults 10 20 (exDb None exProblem)
                   ''u1'' ''c1'' ''p1'' ''int main() {'' ''cpp''))) \<noteq> Some ''compilation_error''"
  by (simp add: ex_defs model_defs Let_def)

text \<open>
  The status expression has three values, and every answer of \<open>submitSolution\<close> that
  carries a status takes it from that expression.
\<close>

lemma submissionStatus_values:
  "submissionStatus sc mx = ''accepted'' \<or> submissionStatus sc mx = ''partial'' \<or>
   submissionStatus sc mx = ''attempted''"
  by (simp add: submissionStatus_def)

lemma submissionStatus_not_compilation_error:
  "submissionStatus sc mx \<noteq> ''compilation_error''"
  by (simp add: submissionStatus_def)

lemma gradeAndRespond_status:
  "map_option d_status (data (fst (gradeAndRespond env fl later db uid cid pid code language problem)))
     = Some (submissionStatus
               (submissionScore problem
                  (runCode env (combineWithHarness code language problem) language
                     (testCases problem)))
               (submissionMaxScore problem))"
  by (simp add: gradeAndRespond_def Let_def)

lemma submitSolution_never_compilation_error:
  "map_option d_status
     (data (fst (submitSolution env fl now later db uid cid pid code language)))
     \<noteq> Some ''compilation_error''"
proof -
  have G: "d_status z \<noteq> ''compilation_error''"
    if "data (fst (gradeAndRespond env fl later db uid cid pid code language problem)) = Some z"
    for problem z
    using that
    by (auto simp: gradeAndRespond_def Let_def submissionStatus_not_compilation_error)
  show ?thesis
    using G
    by (auto simp: submitSolution_def reject_def serverError_def split: option.splits)
qed

text \<open>
  C4, amended. The language is \<open>cpp\<close> or \<open>java\<close>, the source (the user code with the
  harness) is written, and its compiler exits with a code other than 0. Then, whatever the
  maximum is, every test result of the answer is the same: not passed, no time, no output,
  error \<open>Compilation failed\<close>; there is one for each test case; the score is 0 and the
  total time 0; the status is the value of the status expression at score 0, which is not
  \<open>compilation_error\<close> and is \<open>attempted\<close> when the maximum is not 0. And no call of
  \<open>submitSolution\<close>, with any environment, store, faults and request, answers with the
  status \<open>compilation_error\<close>.
\<close>

theorem compilation_failure_outcome:
  assumes "language = ''cpp'' \<or> language = ''java''"
    and "writeFile env (combineWithHarness code language problem) = None"
    and "compileProc env (compilerOf language) (combineWithHarness code language problem)
           = Close c out err"
    and "c \<noteq> Some 0"
  shows "fst (gradeAndRespond env fl later db uid cid pid code language problem) =
           \<lparr>httpStatus = 200, success = True, message = ''Solution submitted successfully'',
            data = Some \<lparr>d_status = submissionStatus 0 (submissionMaxScore problem),
                         d_score = 0,
                         d_maxScore = submissionMaxScore problem,
                         d_testResults = replicate (length (testCases problem)) compilationFailed,
                         d_totalExecutionTime = 0\<rparr>,
            errorMessage = None\<rparr> \<and>
         submissionStatus 0 (submissionMaxScore problem) \<noteq> ''compilation_error'' \<and>
         (submissionMaxScore problem \<noteq> 0 \<longrightarrow>
            submissionStatus 0 (submissionMaxScore problem) = ''attempted'') \<and>
         map_option d_status
           (data (fst (submitSolution env' fl' now' later' db' uid' cid' pid' code' language')))
           \<noteq> Some ''compilation_error''"
proof -
  let ?combined = "combineWithHarness code language problem"
  let ?results = "runCode env ?combined language (testCases problem)"
  have "tryExecute env ?combined language = (\<lambda>_. compilationFailed)"
    by (rule ext) (rule tryExecute_compile_failure[OF assms(1-4)])
  then have R: "?results = replicate (length (testCases problem)) compilationFailed"
    by (simp add: runCode_map map_replicate_const)
  have S: "submissionScore problem ?results = 0"
    unfolding R submissionScore_def
    by (rule scoreLoop_none_passed) (simp add: list_all_iff compilationFailed_def)
  have T: "totalExecutionTime ?results = 0"
    unfolding R totalExecutionTime_def
    by (simp add: foldl_plus_map compilationFailed_def sum_list_replicate)
  have A: "fst (gradeAndRespond env fl later db uid cid pid code language problem) =
           \<lparr>httpStatus = 200, success = True, message = ''Solution submitted successfully'',
            data = Some \<lparr>d_status = submissionStatus 0 (submissionMaxScore problem),
                         d_score = 0,
                         d_maxScore = submissionMaxScore problem,
                         d_testResults = replicate (length (testCases problem)) compilationFailed,
                         d_totalExecutionTime = 0\<rparr>,
            errorMessage = None\<rparr>"
    using R S T by (simp add: gradeAndRespond_def Let_def)
  have B: "submissionMaxScore problem \<noteq> 0 \<longrightarrow>
             submissionStatus 0 (submissionMaxScore problem) = ''attempted''"
    by (simp add: submissionStatus_def)
  from A B submissionStatus_not_compilation_error submitSolution_never_compilation_error
  show ?thesis
    by blast
qed

text \<open>
  The C++ submission whose compiler exits with code 1, on the problem with maximum 70: two
  compilation failures, score 0, status \<open>attempted\<close>.
\<close>

theorem compilation_failure_outcome_witness:
  "data (fst (gradeAndRespond brokenCompileEnv noFaults 20 (exDb None exProblem)
                ''u1'' ''c1'' ''p1'' ''int main() {'' ''cpp'' exProblem))
     = Some \<lparr>d_status = ''attempted'', d_score = 0, d_maxScore = 70,
             d_testResults = [compilationFailed, compilationFailed],
             d_totalExecutionTime = 0\<rparr>"
proof -
  have 1: "''cpp'' = ''cpp'' \<or> ''cpp'' = ''java''"
    by simp
  have 2: "writeFile brokenCompileEnv (combineWithHarness ''int main() {'' ''cpp'' exProblem) = None"
    by (simp add: brokenCompileEnv_def)
  have 3: "compileProc brokenCompileEnv (compilerOf ''cpp'')
             (combineWithHarness ''int main() {'' ''cpp'' exProblem)
           = Close (Some 1) '''' ''expected ;''"
    by (simp add: brokenCompileEnv_def)
  have 4: "Some (1 :: int) \<noteq> Some 0"
    by simp
  have 5: "submissionMaxScore exProblem \<noteq> 0"
    by (simp add: submissionMaxScore_sum exProblem_def exTests_def)
  have 6: "submissionMaxScore exProblem = 70"
    by (simp add: submissionMaxScore_sum exProblem_def exTests_def)
  have 7: "replicate (length (testCases exProblem)) compilationFailed
             = [compilationFailed, compilationFailed]"
    by (simp add: exProblem_def exTests_def)
  note T = compilation_failure_outcome [OF 1 2 3 4, of noFaults 20 "exDb None exProblem"
      "''u1''" "''c1''" "''p1''"]
  from T have R: "fst (gradeAndRespond brokenCompileEnv noFaults 20 (exDb None exProblem)
                         ''u1'' ''c1'' ''p1'' ''int main() {'' ''cpp'' exProblem) =
           \<lparr>httpStatus = 200, success = True, message = ''Solution submitted successfully'',
            data = Some \<lparr>d_status = submissionStatus 0 (submissionMaxScore exProblem),
                         d_score = 0,
                         d_maxScore = submissionMaxScore exProblem,
                         d_testResults = replicate (length (testCases exProblem)) compilationFailed,
                         d_totalExecutionTime = 0\<rparr>,
            errorMessage = None\<rparr>"
    by (rule conjunct1)
  from T 5 have A: "submissionStatus 0 (submissionMaxScore exProblem) = ''attempted''"
    by blast
  show ?thesis
    unfolding R using A by (simp add: 6 7)
qed

text \<open>
  C7, as the claim states it. The program prints \<open>7\<close>, which is the expected output once
  both are trimmed, and exits with code 1: the test result is not passed.
\<close>

theorem nonzero_exit_counterexample:
  "runProc exitOneEnv ''python'' ''print(7)'' (input (exTests ! 0)) = Close (Some 1) ''7'' '''' \<and>
   trim ''7'' = trim (expectedOutput (exTests ! 0)) \<and>
   \<not> passed (tryExecute exitOneEnv ''print(7)'' ''python'' (exTests ! 0))"
  by (simp add: ex_defs model_defs showCode_def)

text \<open>
  C7, amended. The language is one of the four, the source is written, the compiler of a
  compiled language exits with code 0, and the program closes with some exit code after
  printing \<open>out\<close>. Then the test result is passed if and only if the exit code is 0 and
  the trimmed \<open>out\<close> equals the trimmed expected output.
\<close>

theorem passed_iff_exit_zero_and_match:
  assumes "supported language"
    and "writeFile env code = None"
    and "language = ''cpp'' \<or> language = ''java'' \<longrightarrow>
           compileProc env (compilerOf language) code = Close (Some 0) cout cerr"
    and "runProc env language code (input testCase) = Close c out err"
  shows "passed (tryExecute env code language testCase)
           = (c = Some 0 \<and> trim out = trim (expectedOutput testCase))"
proof -
  consider "language = ''python''" | "language = ''javascript''" | "language = ''cpp''"
    | "language = ''java''"
    using assms(1) by (auto simp: supported_def)
  then show ?thesis
  proof cases
    case 1
    with assms(2,4) show ?thesis
      by (simp add: tryExecute_def executeTestCase_def runPython_def settleRun_def)
  next
    case 2
    with assms(2,4) show ?thesis
      by (simp add: tryExecute_def executeTestCase_def runJavaScript_def settleRun_def)
  next
    case 3
    with assms(2,3,4) show ?thesis
      by (simp add: tryExecute_def executeTestCase_def runCpp_def settleRun_def compilerOf_def)
  next
    case 4
    with assms(2,3,4) show ?thesis
      by (simp add: tryExecute_def executeTestCase_def runJava_def settleRun_def compilerOf_def)
  qed
qed

text \<open>
  The program prints \<open>7\<close> between two blanks on each side and exits with code 0; the
  expected output is \<open>7\<close> and a line feed: passed.
\<close>

theorem passed_iff_exit_zero_and_match_witness:
  "passed (tryExecute paddedEnv ''print(7)'' ''python'' (exTests ! 0))"
proof -
  have 1: "supported ''python''"
    by (simp add: supported_def)
  have 2: "writeFile paddedEnv ''print(7)'' = None"
    by (simp add: paddedEnv_def)
  have 3: "''python'' = ''cpp'' \<or> ''python'' = ''java'' \<longrightarrow>
             compileProc paddedEnv (compilerOf ''python'') ''print(7)'' = Close (Some 0) '''' ''''"
    by simp
  have 4: "runProc paddedEnv ''python'' ''print(7)'' (input (exTests ! 0))
             = Close (Some 0) ''  7  '' ''''"
    by (simp add: paddedEnv_def)
  have "trim ''  7  '' = trim (expectedOutput (exTests ! 0))"
    by (simp add: trim_def isWhiteSpace_def exTests_def)
  with passed_iff_exit_zero_and_match [OF 1 2 3 4] show ?thesis
    by simp
qed

text \<open>
  C8, as the claim states it. The first result of a run over the two test cases has no
  \<open>testCaseId\<close>: reading it gives \<open>undefined\<close>, not the id of the first test case.
\<close>

theorem testCaseId_counterexample:
  "getProperty (runCode silentEnv ''print(1)'' ''python'' exTests ! 0) ''testCaseId'' = JUndefined \<and>
   getProperty (runCode silentEnv ''print(1)'' ''python'' exTests ! 0) ''testCaseId''
     \<noteq> JString (tc_id (exTests ! 0))"
  by (simp add: ex_defs model_defs getProperty_def)

text \<open>
  C8, amended. \<open>runCode\<close> returns as many results as there are test cases, and the result
  at each index is the one of the test case at that index: what \<open>executeTestCase\<close>
  returned for it, or the failed result built from the error it threw. A result carries
  no \<open>testCaseId\<close>.
\<close>

theorem runCode_one_result_per_test_case:
  "length (runCode env code language tcs) = length tcs \<and>
   (\<forall>i < length tcs.
      runCode env code language tcs ! i = tryExecute env code language (tcs ! i) \<and>
      getProperty (runCode env code language tcs ! i) ''testCaseId'' = JUndefined)"
  by (simp add: runCode_map getProperty_def)

theorem runCode_one_result_per_test_case_witness:
  "length (runCode silentEnv ''print(1)'' ''python'' exTests) = 2 \<and>
   (1 :: nat) < length exTests \<and>
   runCode silentEnv ''print(1)'' ''python'' exTests ! 1
     = tryExecute silentEnv ''print(1)'' ''python'' (exTests ! 1) \<and>
   passed (runCode silentEnv ''print(1)'' ''python'' exTests ! 1) = False"
proof -
  have L: "(1 :: nat) < length exTests"
    by (simp add: exTests_def)
  have P: "passed (tryExecute silentEnv ''print(1)'' ''python'' (exTests ! 1)) = False"
    by (simp add: ex_defs model_defs)
  from runCode_one_result_per_test_case [of silentEnv "''print(1)''" "''python''" exTests] L
  have "length (runCode silentEnv ''print(1)'' ''python'' exTests) = length exTests"
    and "runCode silentEnv ''print(1)'' ''python'' exTests ! 1
           = tryExecute silentEnv ''print(1)'' ''python'' (exTests ! 1)"
    by blast+
  with L P show ?thesis
    by (simp add: exTests_def)
qed

section \<open>The harness composer\<close>

text \<open>
  C9, as the claim states it. The problem has the harness \<open>main()\<close>; for the language
  \<open>ruby\<close>, which has no branch, the composer returns the user code as it is, and
  \<open>submitSolution\<close> answers 200 with \<open>success\<close>: the request is not rejected.
\<close>

theorem unsupported_language_counterexample:
  "resolveHarness harnessProblem ''ruby'' = ''main()'' \<and>
   combineWithHarness ''puts 1'' ''ruby'' harnessProblem = ''puts 1'' \<and>
   httpStatus (fst (submitSolution silentEnv noFaults 10 20 (exDb None harnessProblem)
                      ''u1'' ''c1'' ''p1'' ''puts 1'' ''ruby'')) = 200 \<and>
   success (fst (submitSolution silentEnv noFaults 10 20 (exDb None harnessProblem)
                   ''u1'' ''c1'' ''p1'' ''puts 1'' ''ruby''))"
  by (simp add: ex_defs model_defs Let_def)

text \<open>
  C9, amended. When the harness resolved for the language is not empty after trimming:
  for \<open>javascript\<close>, \<open>python\<close>, \<open>cpp\<close> and \<open>java\<close> the composer returns the user code, a
  line feed, the start marker behind the comment sign of the language, a line feed, the
  trimmed harness, a line feed and the end marker; for any other language it returns the
  user code unchanged, and raises no error.
\<close>

theorem harness_composition:
  assumes "resolveHarness problem language \<noteq> ''''"
  shows "combineWithHarness userCode language problem =
           (if supported language then
              userCode @ newline @ commentMarker language @ '' --- HARNESS START ---'' @ newline
                @ resolveHarness problem language @ newline
                @ commentMarker language @ '' --- HARNESS END ---''
            else userCode)"
  using assms
  by (auto simp: combineWithHarness_def supported_def commentMarker_def Let_def)

theorem harness_composition_witness:
  "resolveHarness harnessProblem ''python'' \<noteq> '''' \<and>
   combineWithHarness ''print(1)'' ''python'' harnessProblem =
     ''print(1)'' @ newline @ ''# --- HARNESS START ---'' @ newline @ ''main()'' @ newline
       @ ''# --- HARNESS END ---''"
proof -
  have h: "resolveHarness harnessProblem ''python'' = ''main()''"
    by (simp add: resolveHarness_def harnessProblem_def trim_def isWhiteSpace_def)
  then have n: "resolveHarness harnessProblem ''python'' \<noteq> ''''"
    by simp
  show ?thesis
    using harness_composition [OF n, of "''print(1)''"] h
    by (simp add: supported_def commentMarker_def)
qed

section \<open>Failures of the store\<close>

lemma findOrCreate_cases:
  "findOrCreate fl db uid cid = (r, db') \<Longrightarrow>
   (case r of
      Inl e \<Rightarrow> db' = db
    | Inr cr \<Rightarrow>
        (contestResults db (uid, cid) = Some cr \<and> db' = db) \<or>
        (contestResults db (uid, cid) = None \<and> cr = initialContestResult db uid cid \<and>
         db' = db\<lparr>contestResults :=
                    (contestResults db)((uid, cid) \<mapsto> initialContestResult db uid cid)\<rparr>))"
  by (auto simp: findOrCreate_def Let_def split: option.splits)

lemma updateContestResultTry_failure:
  assumes "fst (updateContestResultTry fl later db uid cid pid sub) = Some e"
  shows "snd (updateContestResultTry fl later db uid cid pid sub) = db \<or>
         (contestResults db (uid, cid) = None \<and> f_resultSave fl = Some e \<and>
          snd (updateContestResultTry fl later db uid cid pid sub)
            = db\<lparr>contestResults :=
                   (contestResults db)((uid, cid) \<mapsto> initialContestResult db uid cid)\<rparr>)"
proof (cases "f_resultFindOne fl")
  case (Some e')
  then show ?thesis
    by (simp add: updateContestResultTry_def)
next
  case None
  obtain r db' where F: "findOrCreate fl db uid cid = (r, db')"
    by (cases "findOrCreate fl db uid cid")
  show ?thesis
  proof (cases r)
    case (Inl e')
    with F None findOrCreate_cases[OF F] show ?thesis
      by (simp add: updateContestResultTry_def)
  next
    case (Inr cr)
    with F None assms obtain S: "f_resultSave fl = Some e"
      and D: "snd (updateContestResultTry fl later db uid cid pid sub) = db'"
      by (auto simp: updateContestResultTry_def Let_def split: option.splits)
    from findOrCreate_cases[OF F] Inr S D show ?thesis
      by auto
  qed
qed

text \<open>
  C10, as the claim states it. The user has no contest result yet and only the final
  \<open>save\<close> fails. \<open>submitSolution\<close> answers with \<open>success\<close>, and the store is not what
  it was: it now holds the contest result that was created, with the problem not
  attempted and no submission counted.
\<close>

theorem save_failure_counterexample:
  "fst (updateContestResultTry saveFails 20 (exDb None exProblem) ''u1'' ''c1'' ''p1''
          (submissionOutcome exProblem (runCode silentEnv ''print(1)'' ''python'' exTests)))
     = Some ''write failed'' \<and>
   success (fst (submitSolution silentEnv saveFails 10 20 (exDb None exProblem)
                   ''u1'' ''c1'' ''p1'' ''print(1)'' ''python'')) \<and>
   contestResults (exDb None exProblem) (''u1'', ''c1'') = None \<and>
   contestResults
     (snd (submitSolution silentEnv saveFails 10 20 (exDb None exProblem)
             ''u1'' ''c1'' ''p1'' ''print(1)'' ''python''))
     (''u1'', ''c1'')
     = Some \<lparr>userId = ''u1'', contestId = ''c1'', totalScore = 0, totalTime = 0,
             problemResults =
               [\<lparr>problemId = ''p1'', score = 0, maxScore = 70, timeSpent = 0,
                 submissionCount = 0, firstAcceptedAt = None, status = ''not_attempted''\<rparr>],
             penalties = 0, isCompleted = False\<rparr>"
  by (simp add: ex_defs model_defs Let_def)

text \<open>
  C10, amended. \<open>updateContestResult\<close> returns to its caller whatever happens in it (it
  has no error result). When a call to the store fails in it, \<open>submitSolution\<close> gives the
  answer it gives when nothing fails: status 200, \<open>success\<close>, the computed score, status
  and test results, and no error. The submission is then not applied to the store, which
  is left as it was, with one exception: when the user had no contest result, its creation
  succeeded and only the final \<open>save\<close> failed, the created contest result stays in the
  store.
\<close>

theorem update_failure_is_silent:
  assumes "fst (updateContestResultTry fl later db uid cid pid
                  (submissionOutcome problem
                     (runCode env (combineWithHarness code language problem) language
                        (testCases problem)))) = Some e"
  shows "fst (gradeAndRespond env fl later db uid cid pid code language problem)
           = fst (gradeAndRespond env noFaults later db uid cid pid code language problem) \<and>
         httpStatus (fst (gradeAndRespond env fl later db uid cid pid code language problem)) = 200 \<and>
         success (fst (gradeAndRespond env fl later db uid cid pid code language problem)) \<and>
         errorMessage (fst (gradeAndRespond env fl later db uid cid pid code language problem)) = None \<and>
         (snd (gradeAndRespond env fl later db uid cid pid code language problem) = db \<or>
          (contestResults db (uid, cid) = None \<and> f_resultSave fl = Some e \<and>
           snd (gradeAndRespond env fl later db uid cid pid code language problem)
             = db\<lparr>contestResults :=
                    (contestResults db)((uid, cid) \<mapsto> initialContestResult db uid cid)\<rparr>))"
  using updateContestResultTry_failure[OF assms]
  by (simp add: gradeAndRespond_def updateContestResult_def Let_def)

text \<open>
  The stored contest result is the accepted one and \<open>save\<close> fails: the answer is the
  successful one and the store is what it was.
\<close>

theorem update_failure_is_silent_witness:
  "success (fst (gradeAndRespond silentEnv saveFails 20 (exDb (Some exAccepted) exProblem)
                   ''u1'' ''c1'' ''p1'' ''print(1)'' ''python'' exProblem)) \<and>
   snd (gradeAndRespond silentEnv saveFails 20 (exDb (Some exAccepted) exProblem)
          ''u1'' ''c1'' ''p1'' ''print(1)'' ''python'' exProblem)
     = exDb (Some exAccepted) exProblem"
proof -
  have h: "fst (updateContestResultTry saveFails 20 (exDb (Some exAccepted) exProblem)
                  ''u1'' ''c1'' ''p1''
                  (submissionOutcome exProblem
                     (runCode silentEnv (combineWithHarness ''print(1)'' ''python'' exProblem)
                        ''python'' (testCases exProblem)))) = Some ''write failed''"
    by (simp add: updateContestResultTry_def findOrCreate_def saveFails_def noFaults_def
        exDb_def Let_def)
  have N: "contestResults (exDb (Some exAccepted) exProblem) (''u1'', ''c1'') \<noteq> None"
    by (simp add: exDb_def)
  note T = update_failure_is_silent [OF h]
  from T
  have S: "success (fst (gradeAndRespond silentEnv saveFails 20 (exDb (Some exAccepted) exProblem)
                          ''u1'' ''c1'' ''p1'' ''print(1)'' ''python'' exProblem))"
    by blast
  from T
  have D: "snd (gradeAndRespond silentEnv saveFails 20 (exDb (Some exAccepted) exProblem)
                   ''u1'' ''c1'' ''p1'' ''print(1)'' ''python'' exProblem)
              = exDb (Some exAccepted) exProblem \<or>
            contestResults (exDb (Some exAccepted) exProblem) (''u1'', ''c1'') = None"
    by (elim conjE disjE) simp_all
  from S D N show ?thesis
    by blast
qed

end
